theory Spec2Isabelle
  imports Complex_Main "HOL-Library.AList"
begin

section \<open>JavaScript strings\<close>

text \<open>
  A JavaScript string is a sequence of UTF-16 code units and \<open>length\<close> counts code units.
  A string is modelled as a \<open>char list\<close>, one \<open>char\<close> per code unit (code units below 256);
  the functions below are the string methods the splitter and the filter translator call.
\<close>

abbreviation newline :: char where
  "newline \<equiv> CHR 0x0A"

text \<open>\<open>s.split('\n')\<close>: never empty, the empty string gives one empty line.\<close>

fun splitNewline :: "string \<Rightarrow> string list" where
  "splitNewline [] = [[]]"
| "splitNewline (c # cs) =
     (if c = newline then [] # splitNewline cs
      else (case splitNewline cs of [] \<Rightarrow> [[c]] | l # ls \<Rightarrow> (c # l) # ls))"

text \<open>White space and line terminators removed by \<open>String.prototype.trim\<close>
  (TAB, LF, VT, FF, CR, SP, NBSP among the code units below 256).\<close>

definition isWhiteSpace :: "char \<Rightarrow> bool" where
  "isWhiteSpace c \<longleftrightarrow>
     c = CHR 0x09 \<or> c = CHR 0x0A \<or> c = CHR 0x0B \<or> c = CHR 0x0C \<or> c = CHR 0x0D \<or>
     c = CHR 0x20 \<or> c = CHR 0xA0"

definition trim :: "string \<Rightarrow> string" where
  "trim s = rev (dropWhile isWhiteSpace (rev (dropWhile isWhiteSpace s)))"

text \<open>\<open>s.slice(-n)\<close> for \<open>n > 0\<close>: the last \<open>n\<close> code units, the whole string when it is
  shorter.\<close>

definition sliceLast :: "int \<Rightarrow> string \<Rightarrow> string" where
  "sliceLast n s = drop (length s - nat n) s"

text \<open>\<open>s.slice(a, b)\<close> for indices \<open>0 \<le> a\<close>, \<open>0 \<le> b\<close>.\<close>

definition slice :: "nat \<Rightarrow> nat \<Rightarrow> string \<Rightarrow> string" where
  "slice a b s = take (b - a) (drop a s)"

section \<open>Chunks\<close>

record metadata =
  startLine :: int
  endLine :: int
  language :: string
  filePath :: "string option"
  isDefinition :: "bool option"

record code_chunk =
  content :: string
  metadata :: metadata

section \<open>Refiner: splitting oversized chunks and adding overlap\<close>

text \<open>
  The body of the \<open>for\<close> loop of \<open>splitLargeChunk\<close>: \<open>i\<close> is the loop index, the list is
  \<open>lines[i..]\<close>, and the loop variables are \<open>subChunks\<close>, \<open>currentChunk\<close>,
  \<open>currentStartLine\<close> and \<open>currentLineCount\<close>.
\<close>

fun splitLoop ::
  "int \<Rightarrow> code_chunk \<Rightarrow> nat \<Rightarrow> string list \<Rightarrow>
   code_chunk list \<times> string \<times> int \<times> int \<Rightarrow> code_chunk list \<times> string \<times> int \<times> int" where
  "splitLoop chunkSize chunk i [] st = st"
| "splitLoop chunkSize chunk i (line # rest) (subChunks, currentChunk, currentStartLine, currentLineCount) =
     (let lineWithNewline = (if rest = [] then line else line @ [newline]) in
      if int (length currentChunk) + int (length lineWithNewline) > chunkSize \<and> length currentChunk > 0
      then splitLoop chunkSize chunk (i + 1) rest
             (subChunks @
                [\<lparr>content = trim currentChunk,
                  metadata = \<lparr>startLine = currentStartLine,
                              endLine = currentStartLine + currentLineCount - 1,
                              language = language (metadata chunk),
                              filePath = filePath (metadata chunk),
                              isDefinition = None\<rparr>\<rparr>],
              lineWithNewline, startLine (metadata chunk) + int i, 1)
      else splitLoop chunkSize chunk (i + 1) rest
             (subChunks, currentChunk @ lineWithNewline, currentStartLine, currentLineCount + 1))"

definition splitLargeChunk :: "int \<Rightarrow> code_chunk \<Rightarrow> string \<Rightarrow> code_chunk list" where
  "splitLargeChunk chunkSize chunk originalCode =
     (case splitLoop chunkSize chunk 0 (splitNewline (content chunk))
             ([], [], startLine (metadata chunk), 0) of
        (subChunks, currentChunk, currentStartLine, currentLineCount) \<Rightarrow>
          if length (trim currentChunk) > 0
          then subChunks @
                 [\<lparr>content = trim currentChunk,
                   metadata = \<lparr>startLine = currentStartLine,
                               endLine = currentStartLine + currentLineCount - 1,
                               language = language (metadata chunk),
                               filePath = filePath (metadata chunk),
                               isDefinition = None\<rparr>\<rparr>]
          else subChunks)"

text \<open>\<open>getLineCount\<close>: the number of lines of a text, one more than its newlines.\<close>

definition getLineCount :: "string \<Rightarrow> int" where
  "getLineCount text = int (length (splitNewline text))"

text \<open>The body of the loop of \<open>addOverlap\<close> at index \<open>i\<close>.\<close>

definition overlapAt :: "int \<Rightarrow> code_chunk list \<Rightarrow> nat \<Rightarrow> code_chunk" where
  "overlapAt chunkOverlap chunks i =
     (if i > 0 \<and> chunkOverlap > 0
      then (let prevChunk = chunks ! (i - 1);
                overlapText = sliceLast chunkOverlap (content prevChunk)
            in \<lparr>content = overlapText @ [newline] @ content (chunks ! i),
                metadata = (metadata (chunks ! i))
                  \<lparr>startLine := max 1 (startLine (metadata (chunks ! i)) - getLineCount overlapText)\<rparr>\<rparr>)
      else \<lparr>content = content (chunks ! i), metadata = metadata (chunks ! i)\<rparr>)"

definition addOverlap :: "int \<Rightarrow> code_chunk list \<Rightarrow> code_chunk list" where
  "addOverlap chunkOverlap chunks =
     (if length chunks \<le> 1 \<or> chunkOverlap \<le> 0 then chunks
      else map (overlapAt chunkOverlap chunks) [0..<length chunks])"

text \<open>The loop of \<open>refineChunks\<close>, before the overlap is added.\<close>

fun refineLoop :: "int \<Rightarrow> string \<Rightarrow> code_chunk list \<Rightarrow> code_chunk list \<Rightarrow> code_chunk list" where
  "refineLoop chunkSize originalCode [] refinedChunks = refinedChunks"
| "refineLoop chunkSize originalCode (chunk # chunks) refinedChunks =
     (if int (length (content chunk)) \<le> chunkSize
      then refineLoop chunkSize originalCode chunks (refinedChunks @ [chunk])
      else refineLoop chunkSize originalCode chunks
             (refinedChunks @ splitLargeChunk chunkSize chunk originalCode))"


section \<open>Chunker: syntax-tree traversal\<close>

text \<open>
  A tree-sitter syntax node, with the fields the splitter reads: \<open>type\<close>,
  \<open>startPosition.row\<close>, \<open>endPosition.row\<close>, \<open>startIndex\<close>, \<open>endIndex\<close> and \<open>children\<close>.
\<close>

datatype syntax_node =
  SyntaxNode (ntype: string) (startRow: nat) (endRow: nat) (startIndex: nat) (endIndex: nat)
    (children: "syntax_node list")

text \<open>\<open>toLowerCase\<close> on code units below 256: A-Z and the upper-case Latin-1 letters.\<close>

definition toLowerChar :: "char \<Rightarrow> char" where
  "toLowerChar c =
     (let n = (of_char c :: nat)
      in if (65 \<le> n \<and> n \<le> 90) \<or> (192 \<le> n \<and> n \<le> 222 \<and> n \<noteq> 215) then char_of (n + 32) else c)"

definition toLowerCase :: "string \<Rightarrow> string" where
  "toLowerCase s = map toLowerChar s"

definition SPLITTABLE_NODE_TYPES :: "(string \<times> string list) list" where
  "SPLITTABLE_NODE_TYPES =
     [(''javascript'', [''function_declaration'', ''arrow_function'', ''class_declaration'',
                        ''method_definition'', ''export_statement'']),
      (''typescript'', [''function_declaration'', ''arrow_function'', ''class_declaration'',
                        ''method_definition'', ''export_statement'', ''interface_declaration'',
                        ''type_alias_declaration'']),
      (''python'', [''function_definition'', ''class_definition'', ''decorated_definition'',
                    ''async_function_definition'', ''module'', ''expression_statement'']),
      (''java'', [''method_declaration'', ''class_declaration'', ''interface_declaration'',
                  ''constructor_declaration'', ''annotation_type_declaration'']),
      (''cpp'', [''function_definition'', ''class_specifier'', ''namespace_definition'',
                 ''declaration'', ''template_declaration'']),
      (''go'', [''function_declaration'', ''method_declaration'', ''type_declaration'',
                ''var_declaration'', ''const_declaration'', ''source_file'']),
      (''rust'', [''function_item'', ''impl_item'', ''struct_item'', ''enum_item'', ''trait_item'',
                  ''mod_item'', ''macro_definition'', ''source_file'']),
      (''csharp'', [''method_declaration'', ''class_declaration'', ''interface_declaration'',
                    ''struct_declaration'', ''enum_declaration'', ''delegate_declaration'']),
      (''scala'', [''method_declaration'', ''class_declaration'', ''interface_declaration'',
                   ''constructor_declaration'', ''object_definition'', ''trait_definition'']),
      (''dart'', [''class_definition'', ''enum_declaration'', ''mixin_declaration'',
                  ''extension_declaration'', ''method_signature'', ''function_signature'',
                  ''getter_signature'', ''setter_signature'', ''constructor_signature''])]"

text \<open>The keys of \<open>langMap\<close> in \<open>getLanguageConfig\<close>, each with the table entry it selects.\<close>

definition langMap :: "(string \<times> string) list" where
  "langMap =
     [(''javascript'', ''javascript''), (''js'', ''javascript''),
      (''typescript'', ''typescript''), (''ts'', ''typescript''),
      (''python'', ''python''), (''py'', ''python''),
      (''java'', ''java''),
      (''cpp'', ''cpp''), (''c++'', ''cpp''), (''c'', ''cpp''),
      (''go'', ''go''),
      (''rust'', ''rust''), (''rs'', ''rust''),
      (''cs'', ''csharp''), (''csharp'', ''csharp''),
      (''scala'', ''scala''),
      (''dart'', ''dart'')]"

text \<open>\<open>getLanguageConfig\<close>: the splittable node types of a language, \<open>None\<close> for \<open>null\<close>
  (the parser object of the entry is not modelled).\<close>

definition getLanguageConfig :: "string \<Rightarrow> string list option" where
  "getLanguageConfig lang =
     (case map_of langMap (toLowerCase lang) of
        None \<Rightarrow> None
      | Some key \<Rightarrow> map_of SPLITTABLE_NODE_TYPES key)"

definition definitionTypes :: "(string \<times> string list) list" where
  "definitionTypes =
     [(''javascript'', [''function_declaration'', ''class_declaration'', ''method_definition'']),
      (''typescript'', [''function_declaration'', ''class_declaration'', ''method_definition'',
                        ''interface_declaration'', ''type_alias_declaration'']),
      (''python'', [''function_definition'', ''class_definition'', ''async_function_definition'']),
      (''java'', [''method_declaration'', ''class_declaration'', ''interface_declaration'',
                  ''constructor_declaration'']),
      (''cpp'', [''function_definition'', ''class_specifier'']),
      (''go'', [''function_declaration'', ''method_declaration'', ''type_declaration'']),
      (''rust'', [''function_item'', ''struct_item'', ''enum_item'', ''trait_item'']),
      (''csharp'', [''method_declaration'', ''class_declaration'', ''interface_declaration'',
                    ''struct_declaration'']),
      (''scala'', [''method_declaration'', ''class_declaration'', ''interface_declaration'']),
      (''dart'', [''class_definition'', ''enum_declaration'', ''mixin_declaration'',
                  ''function_signature'', ''method_signature''])]"

definition isDefinitionNode :: "string \<Rightarrow> string \<Rightarrow> bool" where
  "isDefinitionNode nodeType lang =
     (case map_of definitionTypes (toLowerCase lang) of
        Some types \<Rightarrow> nodeType \<in> set types
      | None \<Rightarrow> False)"

text \<open>
  The closure \<open>traverse\<close> of \<open>extractChunks\<close>: the chunks it pushes for a node and, after
  them, for its children from left to right.
\<close>

fun traverse :: "string \<Rightarrow> string list \<Rightarrow> string \<Rightarrow> string option \<Rightarrow> syntax_node \<Rightarrow> code_chunk list" where
  "traverse code splittableTypes lang fileP (SyntaxNode ty sRow eRow sIdx eIdx cs) =
     (if ty \<in> set splittableTypes \<and> length (trim (slice sIdx eIdx code)) > 0
      then [\<lparr>content = slice sIdx eIdx code,
              metadata = \<lparr>startLine = int sRow + 1,
                          endLine = int eRow + 1,
                          language = lang,
                          filePath = fileP,
                          isDefinition = Some (isDefinitionNode ty lang)\<rparr>\<rparr>]
      else [])
     @ concat (map (traverse code splittableTypes lang fileP) cs)"

definition extractChunks ::
  "syntax_node \<Rightarrow> string \<Rightarrow> string list \<Rightarrow> string \<Rightarrow> string option \<Rightarrow> code_chunk list" where
  "extractChunks node code splittableTypes lang fileP =
     (let codeLines = splitNewline code;
          chunks = traverse code splittableTypes lang fileP node
      in if length chunks = 0
         then [\<lparr>content = code,
                 metadata = \<lparr>startLine = 1,
                             endLine = int (length codeLines),
                             language = lang,
                             filePath = fileP,
                             isDefinition = None\<rparr>\<rparr>]
         else chunks)"

text \<open>
  What a syntax tree guarantees about positions: a node does not end before it starts, every
  child lies within its parent, and siblings follow one another in source order.
\<close>

fun wellFormed :: "syntax_node \<Rightarrow> bool" where
  "wellFormed (SyntaxNode ty sRow eRow sIdx eIdx cs) \<longleftrightarrow>
     sRow \<le> eRow \<and>
     (\<forall>c \<in> set cs. sRow \<le> startRow c \<and> endRow c \<le> eRow \<and> wellFormed c) \<and>
     sorted_wrt (\<lambda>a b. endRow a \<le> startRow b) cs"

section \<open>Collection store: the filter-expression translator\<close>

text \<open>
  \<open>s.replace(/pat/g, rep)\<close> for a pattern that is a non-empty literal: the occurrences are
  replaced from left to right, without overlap. (The empty pattern is not used by the
  translator; the model leaves the text as it is.)
\<close>

function replaceAll :: "string \<Rightarrow> string \<Rightarrow> string \<Rightarrow> string" where
  "replaceAll pat rep s =
     (if s = [] \<or> pat = [] then s
      else if take (length pat) s = pat then rep @ replaceAll pat rep (drop (length pat) s)
      else hd s # replaceAll pat rep (tl s))"
  by pat_completeness auto
termination
  by (relation "measure (\<lambda>(pat, rep, s). length s)") (auto simp: less_Suc_eq_le Suc_le_eq)

declare replaceAll.simps [simp del]

text \<open>
  \<open>s.replace(/ in \[([^\]]+)\]/g, (match, p1) => ` IN (${p1})`)\<close>: at \<open>" in ["\<close> the group takes
  the longest run of code units other than \<open>]\<close>; the pattern matches when that run is not empty
  and a \<open>]\<close> follows it.
\<close>

function replaceInList :: "string \<Rightarrow> string" where
  "replaceInList s =
     (if s = [] then []
      else if take 5 s = '' in [''
      then (let p1 = takeWhile (\<lambda>c. c \<noteq> CHR '']'') (drop 5 s);
                after = dropWhile (\<lambda>c. c \<noteq> CHR '']'') (drop 5 s)
            in if p1 \<noteq> [] \<and> after \<noteq> []
               then '' IN ('' @ p1 @ '')'' @ replaceInList (tl after)
               else hd s # replaceInList (tl s))
      else hd s # replaceInList (tl s))"
  by pat_completeness auto
termination
proof (relation "measure length")
  fix s :: string and p1 after :: string
  assume a: "after = dropWhile (\<lambda>c. c \<noteq> CHR '']'') (drop 5 s)" and b: "p1 \<noteq> [] \<and> after \<noteq> []"
  have "length after \<le> length (drop 5 s)"
    unfolding a by (rule length_dropWhile_le)
  also have "\<dots> \<le> length s" by simp
  finally have "length after \<le> length s" .
  moreover have "length (tl after) < length after" using b by simp
  ultimately have "length (tl after) < length s" by linarith
  then show "(tl after, s) \<in> measure length" by simp
qed auto

declare replaceInList.simps [simp del]

definition parseFilterExpression :: "string \<Rightarrow> string" where
  "parseFilterExpression filterExpr =
     (let parsed = replaceInList
                     (replaceAll '' == '' '' = ''
                       (replaceAll ''fileExtension'' ''file_extension''
                         (replaceAll ''endLine'' ''end_line''
                           (replaceAll ''startLine'' ''start_line''
                             (replaceAll ''relativePath'' ''relative_path'' filterExpr)))));
          parsed = filter (\<lambda>c. c \<noteq> CHR '';'') parsed
      in if parsed = [] then ''1=1'' else parsed)"

text \<open>Whether a literal occurs in a text, for stating what the translator recognizes.\<close>

fun occursIn :: "string \<Rightarrow> string \<Rightarrow> bool" where
  "occursIn pat [] \<longleftrightarrow> pat = []"
| "occursIn pat (c # cs) \<longleftrightarrow> take (length pat) (c # cs) = pat \<or> occursIn pat cs"

section \<open>Exceptions\<close>

text \<open>
  A thrown JavaScript value: an \<open>Error\<close> object with its \<open>name\<close> and \<open>message\<close>, or any other
  value, given by its string conversion.
\<close>

datatype exn = ErrorObj string string | ThrownValue string

text \<open>\<open>String(error)\<close>.\<close>

fun exnToString :: "exn \<Rightarrow> string" where
  "exnToString (ErrorObj name msg) =
     (if msg = [] then name else if name = [] then msg else name @ '': '' @ msg)"
| "exnToString (ThrownValue v) = v"

text \<open>\<open>error.message || error\<close> inside a template, and \<open>error.message || String(error)\<close>:
  the message when it is a non-empty string, the string conversion otherwise.\<close>

fun messageOrString :: "exn \<Rightarrow> string" where
  "messageOrString (ErrorObj name msg) = (if msg \<noteq> [] then msg else exnToString (ErrorObj name msg))"
| "messageOrString (ThrownValue v) = v"

section \<open>Hybrid ranker\<close>





record hybrid_search_options =
  limit :: "nat option"
  filterExpr :: "string option"

















section \<open>Indexing orchestrator: state\<close>

text \<open>
  Modelled from the spec: the snapshot manager (\<open>snapshot.js\<close>) is not among the sources. It
  keeps the Codebase Index State of section 3, exactly one state per path: a path is
  \<open>indexing\<close> with its progress percentage, \<open>indexed\<close> with its statistics, or \<open>indexfailed\<close>
  with the error message and the last attempted percentage; a path with no state is
  \<open>not_found\<close>. (The time stamp \<open>lastUpdated\<close> is left out: no handler reads it.)
\<close>

datatype codebase_info =
    InfoIndexing real
  | InfoIndexed nat nat string
  | InfoIndexFailed string "real option"


datatype splitter_kind = AstSplitter | LangChainSplitter

text \<open>
  The state the handlers work on. \<open>snapshot\<close> is the registry of the snapshot manager and
  \<open>savedSnapshot\<close> what \<open>saveCodebaseSnapshot\<close> last wrote. Of the shared \<open>Context\<close> (core
  package, not among the sources) the state keeps what the handlers reach: the paths that have an
  index (\<open>hasIndex\<close>, \<open>clearIndex\<close>, \<open>getPreparedCollection\<close>), the custom extensions and ignore
  patterns, and the splitter it was constructed with. \<open>trackedPaths\<close> records the calls of
  \<open>trackCodebasePath\<close>, \<open>backgroundJobs\<close> the calls of \<open>startBackgroundIndexing\<close> that were
  started and not awaited (path, force flag, splitter type), and \<open>indexingStats\<close> is the field
  of \<open>ToolHandlers\<close>.
\<close>

record handler_state =
  snapshot :: "(string \<times> codebase_info) list"
  savedSnapshot :: "(string \<times> codebase_info) list"
  collections :: "string list"
  contextExtensions :: "string list"
  contextIgnorePatterns :: "string list"
  contextSplitter :: splitter_kind
  trackedPaths :: "string list"
  backgroundJobs :: "(string \<times> bool \<times> string) list"
  indexingStats :: "(nat \<times> nat) option"



text \<open>Modelled from the spec: \<open>getIndexingCodebases\<close> of the snapshot manager (missing): the paths whose
  status is \<open>indexing\<close>.\<close>

definition getIndexingCodebases :: "handler_state \<Rightarrow> string list" where
  "getIndexingCodebases s =
     map fst (filter (\<lambda>(p, i). case i of InfoIndexing pct \<Rightarrow> True | _ \<Rightarrow> False) (snapshot s))"

text \<open>Modelled from the spec: \<open>getIndexedCodebases\<close> of the snapshot manager (missing): the paths whose
  status is \<open>indexed\<close>.\<close>

definition getIndexedCodebases :: "handler_state \<Rightarrow> string list" where
  "getIndexedCodebases s =
     map fst (filter (\<lambda>(p, i). case i of InfoIndexed files chunks note \<Rightarrow> True | _ \<Rightarrow> False)
                (snapshot s))"

text \<open>Modelled from the spec: \<open>getIndexingProgress\<close> of the snapshot manager (missing): the progress
  percentage of a path that is \<open>indexing\<close>, undefined otherwise.\<close>

definition getIndexingProgress :: "handler_state \<Rightarrow> string \<Rightarrow> real option" where
  "getIndexingProgress s p =
     (case map_of (snapshot s) p of Some (InfoIndexing pct) \<Rightarrow> Some pct | _ \<Rightarrow> None)"

text \<open>Modelled from the spec: \<open>setCodebaseIndexing\<close> of the snapshot manager (missing): the path is
  \<open>indexing\<close> with the given percentage.\<close>

definition setCodebaseIndexing :: "string \<Rightarrow> real \<Rightarrow> handler_state \<Rightarrow> handler_state" where
  "setCodebaseIndexing p pct s = s\<lparr>snapshot := AList.update p (InfoIndexing pct) (snapshot s)\<rparr>"

text \<open>The statistics that \<open>indexCodebase\<close> returns; \<open>status\<close> is \<open>completed\<close> or \<open>limit_reached\<close>.\<close>

record index_stats =
  indexedFiles :: nat
  totalChunks :: nat
  status :: string

text \<open>Modelled from the spec: \<open>setCodebaseIndexed\<close> of the snapshot manager (missing): the path is
  \<open>indexed\<close> with the final statistics.\<close>

definition setCodebaseIndexed :: "string \<Rightarrow> index_stats \<Rightarrow> handler_state \<Rightarrow> handler_state" where
  "setCodebaseIndexed p stats s =
     s\<lparr>snapshot := AList.update p (InfoIndexed (indexedFiles stats) (totalChunks stats) (status stats))
                     (snapshot s)\<rparr>"

text \<open>Modelled from the spec: \<open>setCodebaseIndexFailed\<close> of the snapshot manager (missing): the path is
  \<open>indexfailed\<close> with the error message and the last attempted percentage.\<close>

definition setCodebaseIndexFailed ::
  "string \<Rightarrow> string \<Rightarrow> real option \<Rightarrow> handler_state \<Rightarrow> handler_state" where
  "setCodebaseIndexFailed p errorMessage lastAttemptedPercentage s =
     s\<lparr>snapshot := AList.update p (InfoIndexFailed errorMessage lastAttemptedPercentage) (snapshot s)\<rparr>"

text \<open>Modelled from the spec: \<open>removeIndexedCodebase\<close> of the snapshot manager (missing): the snapshot
  entry of an indexed path is cleared.\<close>

definition removeIndexedCodebase :: "string \<Rightarrow> handler_state \<Rightarrow> handler_state" where
  "removeIndexedCodebase p s =
     (if p \<in> set (getIndexedCodebases s) then s\<lparr>snapshot := AList.delete p (snapshot s)\<rparr> else s)"

text \<open>Modelled from the spec: \<open>saveCodebaseSnapshot\<close> of the snapshot manager (missing): the registry is
  written to the snapshot.\<close>

definition saveCodebaseSnapshot :: "handler_state \<Rightarrow> handler_state" where
  "saveCodebaseSnapshot s = s\<lparr>savedSnapshot := snapshot s\<rparr>"

text \<open>Modelled from the spec: \<open>Context.hasIndex\<close> (core package, missing): whether the codebase has a
  collection.\<close>

definition hasIndex :: "handler_state \<Rightarrow> string \<Rightarrow> bool" where
  "hasIndex s p \<longleftrightarrow> p \<in> set (collections s)"

text \<open>Modelled from the spec: \<open>Context.clearIndex\<close> (core package, missing): the collection of the codebase
  is dropped.\<close>

definition clearIndex :: "string \<Rightarrow> handler_state \<Rightarrow> handler_state" where
  "clearIndex p s = s\<lparr>collections := removeAll p (collections s)\<rparr>"

text \<open>Modelled from the spec: \<open>Context.addCustomExtensions\<close> (core package, missing): the extensions are
  added to those of the \<open>Context\<close>.\<close>

definition addCustomExtensions :: "string list \<Rightarrow> handler_state \<Rightarrow> handler_state" where
  "addCustomExtensions exts s = s\<lparr>contextExtensions := contextExtensions s @ exts\<rparr>"

text \<open>Modelled from the spec: \<open>Context.addCustomIgnorePatterns\<close> (core package, missing): the patterns
  are added to those of the \<open>Context\<close>.\<close>

definition addCustomIgnorePatterns :: "string list \<Rightarrow> handler_state \<Rightarrow> handler_state" where
  "addCustomIgnorePatterns pats s = s\<lparr>contextIgnorePatterns := contextIgnorePatterns s @ pats\<rparr>"

text \<open>Modelled from the spec: \<open>trackCodebasePath\<close> of the utilities (missing); the spec does not describe
  it, and the model only records the call.\<close>

definition trackCodebasePath :: "string \<Rightarrow> handler_state \<Rightarrow> handler_state" where
  "trackCodebasePath p s = s\<lparr>trackedPaths := trackedPaths s @ [p]\<rparr>"

section \<open>Indexing orchestrator: responses\<close>

text \<open>\<open>toUpperCase\<close> on the letters a-z; it is applied to the splitter type, which is
  \<open>ast\<close> or \<open>langchain\<close> where it is applied.\<close>

definition toUpperChar :: "char \<Rightarrow> char" where
  "toUpperChar c =
     (let n = (of_char c :: nat) in if 97 \<le> n \<and> n \<le> 122 then char_of (n - 32) else c)"

definition toUpperCase :: "string \<Rightarrow> string" where
  "toUpperCase s = map toUpperChar s"

text \<open>A result of \<open>Context.semanticSearch\<close>; \<open>score\<close> may be missing.\<close>

datatype search_result =
  SearchResult (sr_content: string) (sr_relativePath: string) (sr_startLine: int) (sr_endLine: int)
    (sr_language: string) (sr_score: "real option")

text \<open>An element of \<open>allResults\<close> in \<open>searchAllCodebases\<close>.\<close>

record found_item =
  item_result :: search_result
  item_codebasePath :: string
  item_codebaseName :: string
  item_score :: real
  item_isIndexing :: bool

text \<open>
  The text of a response, one constructor for each template of the handlers, with the values
  the template interpolates:
  \<^item> \<open>InvalidSplitterType t\<close>: Error: Invalid splitter type 't'. Must be 'ast' or 'langchain'.
  \<^item> \<open>PathDoesNotExist abs given\<close>: Error: Path 'abs' does not exist. Original input: 'given'
  \<^item> \<open>PathNotDirectory abs\<close>: Error: Path 'abs' is not a directory
  \<^item> \<open>AlreadyBeingIndexed abs\<close>: Codebase 'abs' is already being indexed in the background.
    Please wait for completion.
  \<^item> \<open>AlreadyIndexed abs\<close>: Codebase 'abs' is already indexed. Use force=true to re-index.
  \<^item> \<open>COLLECTION_LIMIT_MESSAGE\<close>: the constant of that name of the core package.
  \<^item> \<open>ErrorValidatingCollection m\<close>: Error validating collection creation: m
  \<^item> \<open>StartedBackgroundIndexing abs S given exts pats\<close>: Started background indexing for
    codebase 'abs' using S splitter., then the note on the resolved input path (when \<open>given\<close> is
    not \<open>None\<close>), the custom extensions and the custom ignore patterns (when not empty), and
    the notice that indexing runs in the background.
  \<^item> \<open>ErrorStartingIndexing m\<close>: Error starting indexing: m
  \<^item> \<open>NoCodebasesIndexed\<close>: No codebases are currently indexed. Please index a codebase first
    using the add_codebase tool.
  \<^item> \<open>NoResultsAcross q n note\<close>: No results found for query: "q" across n indexed codebase(s),
    with the note on codebases still being indexed when \<open>note\<close> holds.
  \<^item> \<open>FoundAcross items q n tip\<close>: Found (number of items) results for query: "q" across n
    codebase(s), then the items in order, each with its rank, language, codebase name,
    location, codebase path, score and content, and the tip on codebases still being indexed
    when \<open>tip\<close> holds.
\<close>

datatype response_text =
    InvalidSplitterType string
  | PathDoesNotExist string string
  | PathNotDirectory string
  | AlreadyBeingIndexed string
  | AlreadyIndexed string
  | COLLECTION_LIMIT_MESSAGE
  | ErrorValidatingCollection string
  | StartedBackgroundIndexing string string "string option" "string list" "string list"
  | ErrorStartingIndexing string
  | NoCodebasesIndexed
  | NoResultsAcross string nat bool
  | FoundAcross "found_item list" string nat bool

text \<open>A response of a tool handler: its text and \<open>isError\<close> (false when the field is absent).\<close>

datatype response = Response (responseText: response_text) (isError: bool)

section \<open>Indexing orchestrator: starting an indexing job\<close>

text \<open>The arguments of \<open>handleIndexCodebase\<close>; \<open>None\<close> is a missing argument.\<close>

record index_args =
  path :: string
  force :: "bool option"
  splitter :: "string option"
  customExtensions :: "string list option"
  ignorePatterns :: "string list option"

text \<open>
  What the world outside the handler answers during one call of \<open>handleIndexCodebase\<close>:
  \<open>ensureAbsolutePath\<close> of the utilities, \<open>fs.existsSync\<close>, \<open>fs.statSync(p).isDirectory()\<close> (or
  the exception of \<open>statSync\<close>), a failure of the store inside \<open>hasIndex\<close> or \<open>clearIndex\<close>,
  and the answer of \<open>checkCollectionLimit\<close> (or its exception).
\<close>

record index_env =
  ensureAbsolutePath :: "string \<Rightarrow> string"
  existsSync :: "string \<Rightarrow> bool"
  statIsDirectory :: "string \<Rightarrow> exn + bool"
  hasIndexFailure :: "string \<Rightarrow> exn option"
  clearIndexFailure :: "string \<Rightarrow> exn option"
  checkCollectionLimit :: "exn + bool"

text \<open>The block \<open>if (forceReindex) { ... }\<close> that precedes the collection-limit check: the state
  after it, or the exception of a store call with the state reached.\<close>

definition forceReindexBlock ::
  "index_env \<Rightarrow> bool \<Rightarrow> string \<Rightarrow> handler_state \<Rightarrow> (exn \<times> handler_state) + handler_state" where
  "forceReindexBlock env forceReindex absolutePath s =
     (if forceReindex
      then (let s1 = (if absolutePath \<in> set (getIndexedCodebases s)
                      then removeIndexedCodebase absolutePath s else s)
            in case hasIndexFailure env absolutePath of
                 Some e \<Rightarrow> Inl (e, s1)
               | None \<Rightarrow>
                   if hasIndex s1 absolutePath
                   then (case clearIndexFailure env absolutePath of
                           Some e \<Rightarrow> Inl (e, s1)
                         | None \<Rightarrow> Inr (clearIndex absolutePath s1))
                   else Inr s1)
      else Inr s)"

definition handleIndexCodebase :: "index_env \<Rightarrow> index_args \<Rightarrow> handler_state \<Rightarrow> response \<times> handler_state" where
  "handleIndexCodebase env args s =
     (let codebasePath = path args;
          forceReindex = (case force args of Some b \<Rightarrow> b | None \<Rightarrow> False);
          splitterType = (case splitter args of Some t \<Rightarrow> if t = [] then ''ast'' else t | None \<Rightarrow> ''ast'');
          customFileExtensions = (case customExtensions args of Some xs \<Rightarrow> xs | None \<Rightarrow> []);
          customIgnorePatterns = (case ignorePatterns args of Some xs \<Rightarrow> xs | None \<Rightarrow> [])
      in
      if splitterType \<noteq> ''ast'' \<and> splitterType \<noteq> ''langchain''
      then (Response (InvalidSplitterType splitterType) True, s)
      else
        let absolutePath = ensureAbsolutePath env codebasePath in
        if \<not> existsSync env absolutePath
        then (Response (PathDoesNotExist absolutePath codebasePath) True, s)
        else
          case statIsDirectory env absolutePath of
            Inl e \<Rightarrow> (Response (ErrorStartingIndexing (messageOrString e)) True, s)
          | Inr isDirectory \<Rightarrow>
              if \<not> isDirectory
              then (Response (PathNotDirectory absolutePath) True, s)
              else if absolutePath \<in> set (getIndexingCodebases s)
              then (Response (AlreadyBeingIndexed absolutePath) True, s)
              else if \<not> forceReindex \<and> absolutePath \<in> set (getIndexedCodebases s)
              then (Response (AlreadyIndexed absolutePath) True, s)
              else
                (case forceReindexBlock env forceReindex absolutePath s of
                  Inl (e, s1) \<Rightarrow> (Response (ErrorStartingIndexing (messageOrString e)) True, s1)
                | Inr s1 \<Rightarrow>
                    (case checkCollectionLimit env of
                       Inl validationError \<Rightarrow>
                         (Response (ErrorValidatingCollection (messageOrString validationError)) True, s1)
                     | Inr canCreateCollection \<Rightarrow>
                         if \<not> canCreateCollection
                         then (Response COLLECTION_LIMIT_MESSAGE True, s1)
                         else
                           let s2 = (if length customFileExtensions > 0
                                     then addCustomExtensions customFileExtensions s1 else s1);
                               s3 = (if length customIgnorePatterns > 0
                                     then addCustomIgnorePatterns customIgnorePatterns s2 else s2);
                               s4 = setCodebaseIndexing absolutePath 0 s3;
                               s5 = saveCodebaseSnapshot s4;
                               s6 = trackCodebasePath absolutePath s5;
                               s7 = s6\<lparr>backgroundJobs :=
                                         backgroundJobs s6 @ [(absolutePath, forceReindex, splitterType)]\<rparr>
                           in (Response
                                 (StartedBackgroundIndexing absolutePath (toUpperCase splitterType)
                                    (if codebasePath \<noteq> absolutePath then Some codebasePath else None)
                                    customFileExtensions customIgnorePatterns)
                                 False,
                               s7))))"

definition handleReindexCodebase :: "index_env \<Rightarrow> index_args \<Rightarrow> handler_state \<Rightarrow> response \<times> handler_state" where
  "handleReindexCodebase env args s = handleIndexCodebase env (args\<lparr>force := Some True\<rparr>) s"

section \<open>Indexing orchestrator: the background job\<close>

record progress =
  phase :: string
  current :: nat
  total :: nat
  percentage :: real

text \<open>
  What \<open>indexCodebase\<close> of the \<open>Context\<close> does during one job: the calls of the progress
  callback, each with the value of \<open>Date.now()\<close> at the call, and then the statistics it returns
  or the exception it raises.
\<close>

record index_run =
  progressCalls :: "(progress \<times> int) list"
  indexResult :: "exn + index_stats"

text \<open>
  What the collaborators do during one call of \<open>startBackgroundIndexing\<close>: an exception of
  \<open>getLoadedIgnorePatterns\<close>, of \<open>synchronizer.initialize\<close> or of \<open>getPreparedCollection\<close>, and
  the run of \<open>indexCodebase\<close>, which depends on the splitter of the \<open>Context\<close> that runs it.
\<close>

record job_run =
  loadIgnorePatterns :: "exn option"
  synchronizerInitialize :: "exn option"
  prepareCollection :: "exn option"
  indexCodebase :: "splitter_kind \<Rightarrow> index_run"

text \<open>The calls of \<open>console.warn\<close>.\<close>

datatype warning = NonAstSplitterRequested string | ErrorSearching string string

text \<open>The progress callback; the second component is \<open>lastSaveTime\<close>.\<close>

fun progressCallback :: "string \<Rightarrow> progress \<times> int \<Rightarrow> handler_state \<times> int \<Rightarrow> handler_state \<times> int" where
  "progressCallback absolutePath (progress, currentTime) (s, lastSaveTime) =
     (let s1 = setCodebaseIndexing absolutePath (percentage progress) s
      in if currentTime - lastSaveTime \<ge> 2000
         then (saveCodebaseSnapshot s1, currentTime)
         else (s1, lastSaveTime))"

text \<open>The \<open>catch\<close> block of \<open>startBackgroundIndexing\<close>.\<close>

definition indexingFailed :: "string \<Rightarrow> exn \<Rightarrow> handler_state \<Rightarrow> handler_state" where
  "indexingFailed absolutePath error s =
     (let lastProgress = getIndexingProgress s absolutePath;
          errorMessage = messageOrString error
      in saveCodebaseSnapshot (setCodebaseIndexFailed absolutePath errorMessage lastProgress s))"

text \<open>
  \<open>startBackgroundIndexing\<close>: the exception its promise is rejected with (\<open>None\<close> when it is
  fulfilled), the warnings, and the state. The task runs on \<open>this.context\<close> whatever the
  splitter type is (\<open>contextForThisTask = this.context\<close>); the model stands for that
  \<open>Context\<close> by the splitter it holds, which decides what \<open>indexCodebase\<close> does.
  \<open>getPreparedCollection\<close> creates the collection when it is absent.
\<close>

definition startBackgroundIndexing ::
  "job_run \<Rightarrow> string \<Rightarrow> bool \<Rightarrow> string \<Rightarrow> handler_state \<Rightarrow> exn option \<times> warning list \<times> handler_state" where
  "startBackgroundIndexing run codebasePath forceReindex splitterType s =
     (let absolutePath = codebasePath;
          contextForThisTask = contextSplitter s;
          warnings = (if splitterType \<noteq> ''ast'' then [NonAstSplitterRequested splitterType] else [])
      in case loadIgnorePatterns run of
           Some e \<Rightarrow> (None, warnings, indexingFailed absolutePath e s)
         | None \<Rightarrow>
        (case synchronizerInitialize run of
           Some e \<Rightarrow> (None, warnings, indexingFailed absolutePath e s)
         | None \<Rightarrow>
        (case prepareCollection run of
           Some e \<Rightarrow> (None, warnings, indexingFailed absolutePath e s)
         | None \<Rightarrow>
             let s1 = (if absolutePath \<in> set (collections s) then s
                       else s\<lparr>collections := collections s @ [absolutePath]\<rparr>);
                 indexing = indexCodebase run contextForThisTask;
                 s2 = fst (fold (progressCallback absolutePath) (progressCalls indexing) (s1, 0))
             in (case indexResult indexing of
                   Inl e \<Rightarrow> (None, warnings, indexingFailed absolutePath e s2)
                 | Inr stats \<Rightarrow>
                     (None, warnings,
                      saveCodebaseSnapshot
                        ((setCodebaseIndexed absolutePath stats s2)
                           \<lparr>indexingStats := Some (indexedFiles stats, totalChunks stats)\<rparr>))))))"

section \<open>Indexing orchestrator: searching all codebases\<close>






section \<open>Indexing orchestrator: runs of the server\<close>







section \<open>Properties of the Refiner\<close>


lemma length_splitNewline: "length (splitNewline s) = Suc (length (filter (\<lambda>c. c = newline) s))"
  by (induction s) (auto split: list.splits)










lemma getLineCount_newlines:
  "getLineCount text = int (length (filter (\<lambda>c. c = newline) text)) + 1"
  by (simp add: getLineCount_def length_splitNewline)

text \<open>
  Claim C2 (as amended). For a chunk sequence of more than one chunk and a positive overlap
  size, \<open>addOverlap\<close> keeps the first chunk and, for every other chunk, prepends the last
  \<open>overlapSize\<close> code units of the preceding chunk's content and a newline, and lowers
  \<open>startLine\<close> by the number of lines of the overlap text, which is its number of newline
  characters plus one, with line 1 as the floor; the other metadata are unchanged.
\<close>

theorem addOverlap_prepends:
  assumes "length chunks > 1" and "chunkOverlap > 0"
  shows "length (addOverlap chunkOverlap chunks) = length chunks \<and>
         addOverlap chunkOverlap chunks ! 0 = chunks ! 0 \<and>
         (\<forall>i. 0 < i \<and> i < length chunks \<longrightarrow>
            content (addOverlap chunkOverlap chunks ! i) =
              sliceLast chunkOverlap (content (chunks ! (i - 1))) @ [newline] @ content (chunks ! i) \<and>
            startLine (metadata (addOverlap chunkOverlap chunks ! i)) =
              max 1 (startLine (metadata (chunks ! i)) -
                      (int (length (filter (\<lambda>c. c = newline)
                              (sliceLast chunkOverlap (content (chunks ! (i - 1)))))) + 1)) \<and>
            endLine (metadata (addOverlap chunkOverlap chunks ! i)) = endLine (metadata (chunks ! i)) \<and>
            language (metadata (addOverlap chunkOverlap chunks ! i)) = language (metadata (chunks ! i)) \<and>
            filePath (metadata (addOverlap chunkOverlap chunks ! i)) = filePath (metadata (chunks ! i)) \<and>
            isDefinition (metadata (addOverlap chunkOverlap chunks ! i)) = isDefinition (metadata (chunks ! i)))"
proof -
  have eq: "addOverlap chunkOverlap chunks = map (overlapAt chunkOverlap chunks) [0..<length chunks]"
    using assms by (simp add: addOverlap_def)
  have len: "length (addOverlap chunkOverlap chunks) = length chunks"
    by (simp add: eq)
  have pos: "0 < length chunks" using assms(1) by linarith
  have first: "addOverlap chunkOverlap chunks ! 0 = chunks ! 0"
    using pos by (simp add: eq overlapAt_def)
  have rest: "content (addOverlap chunkOverlap chunks ! i) =
              sliceLast chunkOverlap (content (chunks ! (i - 1))) @ [newline] @ content (chunks ! i) \<and>
            startLine (metadata (addOverlap chunkOverlap chunks ! i)) =
              max 1 (startLine (metadata (chunks ! i)) -
                      (int (length (filter (\<lambda>c. c = newline)
                              (sliceLast chunkOverlap (content (chunks ! (i - 1)))))) + 1)) \<and>
            endLine (metadata (addOverlap chunkOverlap chunks ! i)) = endLine (metadata (chunks ! i)) \<and>
            language (metadata (addOverlap chunkOverlap chunks ! i)) = language (metadata (chunks ! i)) \<and>
            filePath (metadata (addOverlap chunkOverlap chunks ! i)) = filePath (metadata (chunks ! i)) \<and>
            isDefinition (metadata (addOverlap chunkOverlap chunks ! i)) = isDefinition (metadata (chunks ! i))"
    if "0 < i" "i < length chunks" for i
    using that assms(2) by (simp add: eq overlapAt_def Let_def getLineCount_newlines)
  show ?thesis using len first rest by blast
qed

theorem addOverlap_prepends_witness:
  "length [\<lparr>content = ''ab'',
       metadata = \<lparr>startLine = 5, endLine = 5, language = ''js'', filePath = None, isDefinition = None\<rparr>\<rparr>,
      \<lparr>content = ''cd'',
       metadata = \<lparr>startLine = 10, endLine = 10, language = ''js'', filePath = None, isDefinition = None\<rparr>\<rparr>] > 1
   \<and> (1::int) > 0
   \<and> content (addOverlap 1 [\<lparr>content = ''ab'',
       metadata = \<lparr>startLine = 5, endLine = 5, language = ''js'', filePath = None, isDefinition = None\<rparr>\<rparr>,
      \<lparr>content = ''cd'',
       metadata = \<lparr>startLine = 10, endLine = 10, language = ''js'', filePath = None, isDefinition = None\<rparr>\<rparr>] ! 1)
      = ''b'' @ [newline] @ ''cd''
   \<and> startLine (metadata (addOverlap 1 [\<lparr>content = ''ab'',
       metadata = \<lparr>startLine = 5, endLine = 5, language = ''js'', filePath = None, isDefinition = None\<rparr>\<rparr>,
      \<lparr>content = ''cd'',
       metadata = \<lparr>startLine = 10, endLine = 10, language = ''js'', filePath = None, isDefinition = None\<rparr>\<rparr>] ! 1)) = 9"
proof -
  let ?cs = "[\<lparr>content = ''ab'',
       metadata = \<lparr>startLine = 5, endLine = 5, language = ''js'', filePath = None, isDefinition = None\<rparr>\<rparr>,
      \<lparr>content = ''cd'',
       metadata = \<lparr>startLine = 10, endLine = 10, language = ''js'', filePath = None, isDefinition = None\<rparr>\<rparr>]"
  have h1: "length ?cs > 1" by simp
  have h2: "(1::int) > 0" by simp
  from addOverlap_prepends[OF h1 h2] have
    "content (addOverlap 1 ?cs ! 1) = sliceLast 1 (content (?cs ! (1 - 1))) @ [newline] @ content (?cs ! 1) \<and>
     startLine (metadata (addOverlap 1 ?cs ! 1)) =
              max 1 (startLine (metadata (?cs ! 1)) -
                      (int (length (filter (\<lambda>c. c = newline)
                              (sliceLast 1 (content (?cs ! (1 - 1)))))) + 1))"
    by simp
  then show ?thesis by (simp add: sliceLast_def)
qed

text \<open>
  Claim C2 as stated lowers \<open>startLine\<close> by the number of newline characters of the overlap
  text. For the chunks \<open>ab\<close> (line 5) and \<open>cd\<close> (line 10) with \<open>overlapSize = 1\<close> the overlap
  text \<open>b\<close> has no newline, so the claim keeps line 10, and the code records line 9.
\<close>

theorem addOverlap_newline_count_counterexample:
  "startLine (metadata (addOverlap 1 [\<lparr>content = ''ab'',
       metadata = \<lparr>startLine = 5, endLine = 5, language = ''js'', filePath = None, isDefinition = None\<rparr>\<rparr>,
      \<lparr>content = ''cd'',
       metadata = \<lparr>startLine = 10, endLine = 10, language = ''js'', filePath = None, isDefinition = None\<rparr>\<rparr>] ! 1)) = 9
   \<and> max 1 (10 - int (length (filter (\<lambda>c. c = newline) (sliceLast 1 ''ab'')))) = 10"
  by (simp add: addOverlap_def overlapAt_def sliceLast_def getLineCount_def Let_def)

section \<open>Properties of the Chunker\<close>

lemma traverse_bounds:
  "wellFormed n \<Longrightarrow> c \<in> set (traverse code st lang fp n) \<Longrightarrow>
     int (startRow n) + 1 \<le> startLine (metadata c) \<and> startLine (metadata c) \<le> int (endRow n) + 1"
proof (induction n arbitrary: c)
  case (SyntaxNode ty sRow eRow sIdx eIdx cs)
  from SyntaxNode.prems(2) consider
      (own) "c = \<lparr>content = slice sIdx eIdx code,
              metadata = \<lparr>startLine = int sRow + 1, endLine = int eRow + 1, language = lang,
                          filePath = fp, isDefinition = Some (isDefinitionNode ty lang)\<rparr>\<rparr>"
    | (child) k where "k \<in> set cs" "c \<in> set (traverse code st lang fp k)"
    by (auto split: if_splits)
  then show ?case
  proof cases
    case own
    then show ?thesis using SyntaxNode.prems(1) by simp
  next
    case child
    have wk: "wellFormed k" "sRow \<le> startRow k" "endRow k \<le> eRow"
      using SyntaxNode.prems(1) child(1) by auto
    from SyntaxNode.IH[OF child(1) wk(1) child(2)] wk(2,3) show ?thesis by simp
  qed
qed

lemma sorted_concat_ranges:
  fixes f :: "'a \<Rightarrow> int list" and lo hi :: "'a \<Rightarrow> int"
  assumes "\<forall>k \<in> set ks. sorted (f k)"
      and "\<forall>k \<in> set ks. \<forall>x \<in> set (f k). lo k \<le> x \<and> x \<le> hi k"
      and "sorted_wrt (\<lambda>a b. hi a \<le> lo b) ks"
  shows "sorted (concat (map f ks))"
  using assms
proof (induction ks)
  case Nil
  then show ?case by simp
next
  case (Cons k ks)
  have "sorted (concat (map f ks))" using Cons by simp
  moreover have "sorted (f k)" using Cons.prems(1) by simp
  moreover have "x \<le> y" if "x \<in> set (f k)" "y \<in> set (concat (map f ks))" for x y
  proof -
    from that(2) obtain k' where k': "k' \<in> set ks" "y \<in> set (f k')" by auto
    have "x \<le> hi k" using Cons.prems(2) that(1) by simp
    moreover have "hi k \<le> lo k'" using Cons.prems(3) k'(1) by simp
    moreover have "lo k' \<le> y" using Cons.prems(2) k' by simp
    ultimately show ?thesis by linarith
  qed
  ultimately show ?case by (simp add: sorted_append)
qed

lemma traverse_sorted:
  "wellFormed n \<Longrightarrow> sorted (map (\<lambda>c. startLine (metadata c)) (traverse code st lang fp n))"
proof (induction n)
  case (SyntaxNode ty sRow eRow sIdx eIdx cs)
  let ?f = "\<lambda>k. map (\<lambda>c. startLine (metadata c)) (traverse code st lang fp k)"
  have wf: "\<forall>k \<in> set cs. wellFormed k \<and> sRow \<le> startRow k \<and> endRow k \<le> eRow"
    and sw: "sorted_wrt (\<lambda>a b. endRow a \<le> startRow b) cs"
    using SyntaxNode.prems by auto
  have s1: "\<forall>k \<in> set cs. sorted (?f k)" using SyntaxNode.IH wf by simp
  have s2: "\<forall>k \<in> set cs. \<forall>x \<in> set (?f k). int (startRow k) + 1 \<le> x \<and> x \<le> int (endRow k) + 1"
    using traverse_bounds wf by fastforce
  have s3: "sorted_wrt (\<lambda>a b. int (endRow a) + 1 \<le> int (startRow b) + 1) cs"
    using sw by (simp add: sorted_wrt_mono_rel[of cs])
  have kids: "sorted (concat (map ?f cs))"
    by (rule sorted_concat_ranges[OF s1 s2 s3])
  have low: "int sRow + 1 \<le> x" if "x \<in> set (concat (map ?f cs))" for x
  proof -
    from that obtain k where k: "k \<in> set cs" "x \<in> set (?f k)" by auto
    then have "int (startRow k) + 1 \<le> x" using s2 by blast
    moreover have "sRow \<le> startRow k" using wf k(1) by simp
    ultimately show ?thesis by linarith
  qed
  have mc: "map (\<lambda>c. startLine (metadata c)) (concat (map (traverse code st lang fp) cs)) = concat (map ?f cs)"
    by (simp add: map_concat comp_def)
  show ?case using kids low by (simp add: mc del: set_concat)
qed

lemma splitLoop_sorted:
  assumes "sorted (map (\<lambda>c. startLine (metadata c)) subChunks)"
      and "\<forall>c \<in> set subChunks. startLine (metadata c) \<le> sl"
      and "sl \<le> startLine (metadata chunk) + int i"
      and "splitLoop chunkSize chunk i ls (subChunks, cur, sl, lc) = (subChunks', cur', sl', lc')"
  shows "sorted (map (\<lambda>c. startLine (metadata c)) subChunks') \<and>
         (\<forall>c \<in> set subChunks'. startLine (metadata c) \<le> sl')"
  using assms
proof (induction ls arbitrary: i subChunks cur sl lc)
  case Nil
  then show ?case by simp
next
  case (Cons line rest)
  let ?lwn = "(if rest = [] then line else line @ [newline])"
  let ?new = "\<lparr>content = trim cur,
                  metadata = \<lparr>startLine = sl,
                              endLine = sl + lc - 1,
                              language = language (metadata chunk),
                              filePath = filePath (metadata chunk),
                              isDefinition = None\<rparr>\<rparr>"
  show ?case
  proof (cases "int (length cur) + int (length ?lwn) > chunkSize \<and> length cur > 0")
    case True
    from Cons.prems(4) have
      eq: "splitLoop chunkSize chunk (i + 1) rest
             (subChunks @ [?new], ?lwn, startLine (metadata chunk) + int i, 1) = (subChunks', cur', sl', lc')"
      unfolding splitLoop.simps Let_def using True by (simp only: if_True simp_thms)
    have a: "sorted (map (\<lambda>c. startLine (metadata c)) (subChunks @ [?new]))"
      using Cons.prems(1,2) by (simp add: sorted_append)
    have b: "\<forall>c \<in> set (subChunks @ [?new]). startLine (metadata c) \<le> startLine (metadata chunk) + int i"
      using Cons.prems(2,3) by fastforce
    have c: "startLine (metadata chunk) + int i \<le> startLine (metadata chunk) + int (i + 1)" by simp
    show ?thesis by (rule Cons.IH[OF a b c eq])
  next
    case False
    from Cons.prems(4) have
      eq: "splitLoop chunkSize chunk (i + 1) rest (subChunks, cur @ ?lwn, sl, lc + 1) = (subChunks', cur', sl', lc')"
      unfolding splitLoop.simps Let_def using False by (simp only: if_False simp_thms)
    have c: "sl \<le> startLine (metadata chunk) + int (i + 1)" using Cons.prems(3) by simp
    show ?thesis by (rule Cons.IH[OF Cons.prems(1,2) c eq])
  qed
qed

lemma splitLargeChunk_sorted:
  "sorted (map (\<lambda>c. startLine (metadata c)) (splitLargeChunk chunkSize chunk originalCode))"
proof -
  obtain subChunks cur sl lc where
    eq: "splitLoop chunkSize chunk 0 (splitNewline (content chunk)) ([], [], startLine (metadata chunk), 0)
          = (subChunks, cur, sl, lc)"
    by (metis prod_cases4)
  have "sorted (map (\<lambda>c. startLine (metadata c)) subChunks) \<and>
         (\<forall>c \<in> set subChunks. startLine (metadata c) \<le> sl)"
    by (rule splitLoop_sorted[OF _ _ _ eq]) simp_all
  then show ?thesis
    unfolding splitLargeChunk_def eq by (simp add: sorted_append)
qed

text \<open>
  Claim C8 (as amended). For a well-formed syntax tree, the chunks that the depth-first
  traversal of \<open>extractChunks\<close> emits have non-decreasing \<open>startLine\<close> in emission order, and
  so have the sub-chunks that \<open>splitLargeChunk\<close> makes of any one chunk. Nothing is said about
  the order across different chunks once oversized chunks have been split.
\<close>

theorem extractChunks_startLine_sorted:
  assumes "wellFormed rootNode"
  shows "sorted (map (\<lambda>c. startLine (metadata c)) (extractChunks rootNode code splittableTypes lang fp)) \<and>
         (\<forall>chunkSize chunk originalCode.
            sorted (map (\<lambda>c. startLine (metadata c)) (splitLargeChunk chunkSize chunk originalCode)))"
  using traverse_sorted[OF assms] splitLargeChunk_sorted
  by (simp add: extractChunks_def Let_def)

theorem extractChunks_startLine_sorted_witness:
  "wellFormed (SyntaxNode ''class_declaration'' 0 2 0 8 [SyntaxNode ''method_definition'' 1 1 3 5 []]) \<and>
   map (\<lambda>c. startLine (metadata c))
     (extractChunks (SyntaxNode ''class_declaration'' 0 2 0 8 [SyntaxNode ''method_definition'' 1 1 3 5 []])
        (''ab'' @ [newline] @ ''cd'' @ [newline] @ ''ef'')
        [''function_declaration'', ''arrow_function'', ''class_declaration'',
         ''method_definition'', ''export_statement'']
        ''javascript'' None) = [1, 2] \<and>
   sorted (map (\<lambda>c. startLine (metadata c))
     (extractChunks (SyntaxNode ''class_declaration'' 0 2 0 8 [SyntaxNode ''method_definition'' 1 1 3 5 []])
        (''ab'' @ [newline] @ ''cd'' @ [newline] @ ''ef'')
        [''function_declaration'', ''arrow_function'', ''class_declaration'',
         ''method_definition'', ''export_statement'']
        ''javascript'' None))"
proof -
  have h: "wellFormed (SyntaxNode ''class_declaration'' 0 2 0 8 [SyntaxNode ''method_definition'' 1 1 3 5 []])"
    by simp
  have v: "map (\<lambda>c. startLine (metadata c))
     (extractChunks (SyntaxNode ''class_declaration'' 0 2 0 8 [SyntaxNode ''method_definition'' 1 1 3 5 []])
        (''ab'' @ [newline] @ ''cd'' @ [newline] @ ''ef'')
        [''function_declaration'', ''arrow_function'', ''class_declaration'',
         ''method_definition'', ''export_statement'']
        ''javascript'' None) = [1, 2]"
    by (simp add: extractChunks_def slice_def trim_def isWhiteSpace_def Let_def)
  from extractChunks_startLine_sorted[OF h] h v show ?thesis by blast
qed

text \<open>
  Claim C8 as stated fails after splitting: a class of three lines with a method on its second
  line, with \<open>maxSize = 3\<close>. The class is split into sub-chunks at lines 1, 2 and 3, and the
  chunk of the nested method, at line 2, is emitted after them.
\<close>

theorem refined_startLine_counterexample:
  "getLanguageConfig ''javascript'' =
     Some [''function_declaration'', ''arrow_function'', ''class_declaration'',
           ''method_definition'', ''export_statement''] \<and>
   wellFormed (SyntaxNode ''class_declaration'' 0 2 0 8 [SyntaxNode ''method_definition'' 1 1 3 5 []]) \<and>
   map (\<lambda>c. startLine (metadata c))
     (refineLoop 3 (''ab'' @ [newline] @ ''cd'' @ [newline] @ ''ef'')
        (extractChunks (SyntaxNode ''class_declaration'' 0 2 0 8 [SyntaxNode ''method_definition'' 1 1 3 5 []])
           (''ab'' @ [newline] @ ''cd'' @ [newline] @ ''ef'')
           [''function_declaration'', ''arrow_function'', ''class_declaration'',
            ''method_definition'', ''export_statement'']
           ''javascript'' None) []) = [1, 2, 3, 2] \<and>
   \<not> sorted [1, 2, 3, 2 :: int]"
  by (simp add: extractChunks_def slice_def trim_def isWhiteSpace_def Let_def splitLargeChunk_def
        getLanguageConfig_def langMap_def SPLITTABLE_NODE_TYPES_def toLowerCase_def toLowerChar_def
        isDefinitionNode_def definitionTypes_def)

section \<open>Properties of the filter-expression translator\<close>

lemma replaceAll_absent: "\<not> occursIn pat s \<Longrightarrow> replaceAll pat rep s = s"
proof (induction s)
  case Nil
  then show ?case by (subst replaceAll.simps) simp
next
  case (Cons c cs)
  then show ?case by (subst replaceAll.simps) auto
qed

lemma replaceInList_step:
  "s \<noteq> [] \<Longrightarrow> take 5 s \<noteq> '' in ['' \<Longrightarrow> replaceInList s = hd s # replaceInList (tl s)"
  by (subst replaceInList.simps) simp

lemma occursIn_step:
  "s \<noteq> [] \<Longrightarrow> occursIn pat s \<longleftrightarrow> take (length pat) s = pat \<or> occursIn pat (tl s)"
  by (cases s) simp_all

lemma replaceInList_absent: "\<not> occursIn '' in ['' s \<Longrightarrow> replaceInList s = s"
proof (induction s)
  case Nil
  then show ?case by (subst replaceInList.simps) simp
next
  case (Cons c cs)
  have ne: "c # cs \<noteq> []" by simp
  from Cons.prems occursIn_step[OF ne, of "'' in [''"]
  have a: "take (length '' in ['') (c # cs) \<noteq> '' in [''" and b: "\<not> occursIn '' in ['' (tl (c # cs))"
    by blast+
  have len: "length '' in ['' = 5" by simp
  from a have a': "take 5 (c # cs) \<noteq> '' in [''" unfolding len .
  from replaceInList_step[OF ne a'] have "replaceInList (c # cs) = hd (c # cs) # replaceInList (tl (c # cs))" .
  then show ?case using Cons.IH b by simp
qed

text \<open>
  Claim C7. For every filter string the output of \<open>parseFilterExpression\<close> contains no \<open>;\<close>,
  so no filter yields a second statement. A text in which none of the aliases and operators of
  the translator occurs is passed through with its \<open>;\<close> removed and nothing else changed
  (when nothing is left, the translator returns its default \<open>1=1\<close>).
\<close>

theorem parseFilterExpression_no_semicolon:
  "CHR '';'' \<notin> set (parseFilterExpression f) \<and>
   ((\<forall>pat \<in> set [''relativePath'', ''startLine'', ''endLine'', ''fileExtension'', '' == '', '' in [''].
        \<not> occursIn pat f) \<longrightarrow>
    parseFilterExpression f =
      (if filter (\<lambda>c. c \<noteq> CHR '';'') f = [] then ''1=1'' else filter (\<lambda>c. c \<noteq> CHR '';'') f))"
proof
  show "CHR '';'' \<notin> set (parseFilterExpression f)"
    by (simp add: parseFilterExpression_def Let_def)
next
  show "(\<forall>pat \<in> set [''relativePath'', ''startLine'', ''endLine'', ''fileExtension'', '' == '', '' in [''].
        \<not> occursIn pat f) \<longrightarrow>
    parseFilterExpression f =
      (if filter (\<lambda>c. c \<noteq> CHR '';'') f = [] then ''1=1'' else filter (\<lambda>c. c \<noteq> CHR '';'') f)"
  proof
    assume h: "\<forall>pat \<in> set [''relativePath'', ''startLine'', ''endLine'', ''fileExtension'', '' == '', '' in [''].
        \<not> occursIn pat f"
    have "replaceInList
                     (replaceAll '' == '' '' = ''
                       (replaceAll ''fileExtension'' ''file_extension''
                         (replaceAll ''endLine'' ''end_line''
                           (replaceAll ''startLine'' ''start_line''
                             (replaceAll ''relativePath'' ''relative_path'' f))))) = f"
      using h by (simp add: replaceAll_absent replaceInList_absent del: occursIn.simps)
    then show "parseFilterExpression f =
      (if filter (\<lambda>c. c \<noteq> CHR '';'') f = [] then ''1=1'' else filter (\<lambda>c. c \<noteq> CHR '';'') f)"
      by (simp add: parseFilterExpression_def Let_def)
  qed
qed

theorem parseFilterExpression_no_semicolon_witness:
  "CHR '';'' \<notin> set (parseFilterExpression ''x = 1; DROP TABLE t'') \<and>
   parseFilterExpression ''x = 1; DROP TABLE t'' = ''x = 1 DROP TABLE t''"
proof -
  have h: "\<forall>pat \<in> set [''relativePath'', ''startLine'', ''endLine'', ''fileExtension'', '' == '', '' in [''].
        \<not> occursIn pat ''x = 1; DROP TABLE t''"
    by simp
  have v: "filter (\<lambda>c. c \<noteq> CHR '';'') ''x = 1; DROP TABLE t'' = ''x = 1 DROP TABLE t''"
    by simp
  from parseFilterExpression_no_semicolon[of "''x = 1; DROP TABLE t''"] h
  have "CHR '';'' \<notin> set (parseFilterExpression ''x = 1; DROP TABLE t'') \<and>
        parseFilterExpression ''x = 1; DROP TABLE t'' =
          (if filter (\<lambda>c. c \<noteq> CHR '';'') ''x = 1; DROP TABLE t'' = [] then ''1=1''
           else filter (\<lambda>c. c \<noteq> CHR '';'') ''x = 1; DROP TABLE t'')"
    by blast
  then show ?thesis unfolding v by simp
qed


section \<open>Properties of the hybrid ranker\<close>




















section \<open>Properties of the indexing orchestrator\<close>

lemma getIndexingCodebases_delete:
  "set (map fst (filter P (AList.delete p al))) \<subseteq> set (map fst (filter P al))"
  by (induction al) auto

lemma forceReindexBlock_keeps:
  assumes "forceReindexBlock env forceReindex absolutePath s = Inr s1"
  shows "(\<not> forceReindex \<longrightarrow> s1 = s) \<and>
         savedSnapshot s1 = savedSnapshot s \<and>
         backgroundJobs s1 = backgroundJobs s \<and>
         trackedPaths s1 = trackedPaths s \<and>
         contextExtensions s1 = contextExtensions s \<and>
         contextIgnorePatterns s1 = contextIgnorePatterns s \<and>
         contextSplitter s1 = contextSplitter s \<and>
         indexingStats s1 = indexingStats s \<and>
         set (getIndexingCodebases s1) \<subseteq> set (getIndexingCodebases s)"
proof (cases forceReindex)
  case False
  then show ?thesis using assms by (simp add: forceReindexBlock_def)
next
  case True
  let ?s0 = "if absolutePath \<in> set (getIndexedCodebases s) then removeIndexedCodebase absolutePath s else s"
  have a: "savedSnapshot ?s0 = savedSnapshot s \<and> backgroundJobs ?s0 = backgroundJobs s \<and>
           trackedPaths ?s0 = trackedPaths s \<and> contextExtensions ?s0 = contextExtensions s \<and>
           contextIgnorePatterns ?s0 = contextIgnorePatterns s \<and> contextSplitter ?s0 = contextSplitter s \<and>
           indexingStats ?s0 = indexingStats s"
    by (simp add: removeIndexedCodebase_def)
  have b: "set (getIndexingCodebases ?s0) \<subseteq> set (getIndexingCodebases s)"
    using getIndexingCodebases_delete[of _ absolutePath "snapshot s"]
    by (simp add: removeIndexedCodebase_def getIndexingCodebases_def)
  from assms True have "s1 = ?s0 \<or> s1 = clearIndex absolutePath ?s0"
    by (auto simp: forceReindexBlock_def Let_def split: option.splits if_splits)
  then show ?thesis
  proof
    assume "s1 = ?s0"
    then show ?thesis using a b True by simp
  next
    assume c: "s1 = clearIndex absolutePath ?s0"
    have "getIndexingCodebases s1 = getIndexingCodebases ?s0"
      unfolding c by (simp add: clearIndex_def getIndexingCodebases_def)
    then show ?thesis using a b True unfolding c by (simp add: clearIndex_def)
  qed
qed

text \<open>
  Claim C3 (as amended). When a start-indexing request has passed validation and
  \<open>checkCollectionLimit\<close> answers that no collection can be created, \<open>handleIndexCodebase\<close>
  returns the collection-limit message as its response and goes no further: the path is not
  set to \<open>indexing\<close>, no snapshot is saved, no extension or ignore pattern is added, the path
  is not tracked and no background job is started. Without the force flag no state at all is
  changed. With the force flag the state is the one the force block left: the indexed entry
  and the existing index of the path are cleared before the check.
\<close>

theorem handleIndexCodebase_collection_limit:
  assumes "absolutePath = ensureAbsolutePath env (path args)"
      and "forceReindex = (force args = Some True)"
      and "(case splitter args of Some t \<Rightarrow> if t = [] then ''ast'' else t | None \<Rightarrow> ''ast'')
             \<in> {''ast'', ''langchain''}"
      and "existsSync env absolutePath"
      and "statIsDirectory env absolutePath = Inr True"
      and "absolutePath \<notin> set (getIndexingCodebases s)"
      and "forceReindex \<or> absolutePath \<notin> set (getIndexedCodebases s)"
      and "forceReindexBlock env forceReindex absolutePath s = Inr s1"
      and "checkCollectionLimit env = Inr False"
  shows "responseText (fst (handleIndexCodebase env args s)) = COLLECTION_LIMIT_MESSAGE \<and>
         snd (handleIndexCodebase env args s) = s1 \<and>
         (\<not> forceReindex \<longrightarrow> s1 = s) \<and>
         savedSnapshot s1 = savedSnapshot s \<and>
         backgroundJobs s1 = backgroundJobs s \<and>
         trackedPaths s1 = trackedPaths s \<and>
         contextExtensions s1 = contextExtensions s \<and>
         contextIgnorePatterns s1 = contextIgnorePatterns s \<and>
         absolutePath \<notin> set (getIndexingCodebases s1)"
proof -
  have f: "(case force args of Some b \<Rightarrow> b | None \<Rightarrow> False) = forceReindex"
    using assms(2) by (auto split: option.splits)
  have r: "handleIndexCodebase env args s = (Response COLLECTION_LIMIT_MESSAGE True, s1)"
    using assms(3-9) unfolding handleIndexCodebase_def Let_def f assms(1)[symmetric]
    by (auto split: option.splits)
  from forceReindexBlock_keeps[OF assms(8)] assms(6) r show ?thesis by auto
qed

theorem handleIndexCodebase_collection_limit_witness:
  "handleIndexCodebase
     \<lparr>ensureAbsolutePath = (\<lambda>p. p), existsSync = (\<lambda>p. True), statIsDirectory = (\<lambda>p. Inr True),
      hasIndexFailure = (\<lambda>p. None), clearIndexFailure = (\<lambda>p. None), checkCollectionLimit = Inr False\<rparr>
     \<lparr>path = ''/repo'', force = None, splitter = None, customExtensions = Some [''.vue''],
      ignorePatterns = None\<rparr>
     \<lparr>snapshot = [(''/old'', InfoIndexed 3 7 ''completed'')],
      savedSnapshot = [(''/old'', InfoIndexed 3 7 ''completed'')],
      collections = [''/old''], contextExtensions = [], contextIgnorePatterns = [],
      contextSplitter = AstSplitter, trackedPaths = [], backgroundJobs = [], indexingStats = None\<rparr>
   = (Response COLLECTION_LIMIT_MESSAGE True,
      \<lparr>snapshot = [(''/old'', InfoIndexed 3 7 ''completed'')],
       savedSnapshot = [(''/old'', InfoIndexed 3 7 ''completed'')],
       collections = [''/old''], contextExtensions = [], contextIgnorePatterns = [],
       contextSplitter = AstSplitter, trackedPaths = [], backgroundJobs = [], indexingStats = None\<rparr>)"
proof -
  let ?env = "\<lparr>ensureAbsolutePath = (\<lambda>p::string. p), existsSync = (\<lambda>p::string. True),
      statIsDirectory = (\<lambda>p::string. Inr True :: exn + bool),
      hasIndexFailure = (\<lambda>p::string. None :: exn option),
      clearIndexFailure = (\<lambda>p::string. None :: exn option),
      checkCollectionLimit = (Inr False :: exn + bool)\<rparr>"
  let ?args = "\<lparr>path = ''/repo'', force = None, splitter = None, customExtensions = Some [''.vue''],
      ignorePatterns = None\<rparr>"
  let ?s = "\<lparr>snapshot = [(''/old'', InfoIndexed 3 7 ''completed'')],
      savedSnapshot = [(''/old'', InfoIndexed 3 7 ''completed'')],
      collections = [''/old''], contextExtensions = [], contextIgnorePatterns = [],
      contextSplitter = AstSplitter, trackedPaths = [], backgroundJobs = [], indexingStats = None\<rparr>"
  have h1: "''/repo'' = ensureAbsolutePath ?env (path ?args)" by simp
  have h2: "False = (force ?args = Some True)" by simp
  have h3: "(case splitter ?args of Some t \<Rightarrow> if t = [] then ''ast'' else t | None \<Rightarrow> ''ast'')
             \<in> {''ast'', ''langchain''}" by simp
  have h4: "existsSync ?env ''/repo''" by simp
  have h5: "statIsDirectory ?env ''/repo'' = Inr True" by simp
  have h6: "''/repo'' \<notin> set (getIndexingCodebases ?s)" by (simp add: getIndexingCodebases_def)
  have h7: "False \<or> ''/repo'' \<notin> set (getIndexedCodebases ?s)" by (simp add: getIndexedCodebases_def)
  have h8: "forceReindexBlock ?env False ''/repo'' ?s = Inr ?s" by (simp add: forceReindexBlock_def)
  have h9: "checkCollectionLimit ?env = Inr False" by simp
  from handleIndexCodebase_collection_limit[OF h1 h2 h3 h4 h5 h6 h7 h8 h9]
  have a: "responseText (fst (handleIndexCodebase ?env ?args ?s)) = COLLECTION_LIMIT_MESSAGE"
    and b: "snd (handleIndexCodebase ?env ?args ?s) = ?s"
    by blast+
  have c: "isError (fst (handleIndexCodebase ?env ?args ?s))"
    by (simp add: handleIndexCodebase_def Let_def forceReindexBlock_def getIndexingCodebases_def
          getIndexedCodebases_def)
  show ?thesis
    using a b c by (cases "handleIndexCodebase ?env ?args ?s", cases "fst (handleIndexCodebase ?env ?args ?s)") auto
qed

text \<open>
  Claim C3 as stated fails for a forced request on an indexed path: when the check fails, the
  snapshot entry and the collection of the path are already gone, and the response carries
  \<open>isError = true\<close>.
\<close>

theorem handleIndexCodebase_collection_limit_counterexample:
  "handleIndexCodebase
     \<lparr>ensureAbsolutePath = (\<lambda>p. p), existsSync = (\<lambda>p. True), statIsDirectory = (\<lambda>p. Inr True),
      hasIndexFailure = (\<lambda>p. None), clearIndexFailure = (\<lambda>p. None), checkCollectionLimit = Inr False\<rparr>
     \<lparr>path = ''/repo'', force = Some True, splitter = None, customExtensions = None,
      ignorePatterns = None\<rparr>
     \<lparr>snapshot = [(''/repo'', InfoIndexed 3 7 ''completed'')],
      savedSnapshot = [(''/repo'', InfoIndexed 3 7 ''completed'')],
      collections = [''/repo''], contextExtensions = [], contextIgnorePatterns = [],
      contextSplitter = AstSplitter, trackedPaths = [], backgroundJobs = [], indexingStats = None\<rparr>
   = (Response COLLECTION_LIMIT_MESSAGE True,
      \<lparr>snapshot = [],
       savedSnapshot = [(''/repo'', InfoIndexed 3 7 ''completed'')],
       collections = [], contextExtensions = [], contextIgnorePatterns = [],
       contextSplitter = AstSplitter, trackedPaths = [], backgroundJobs = [], indexingStats = None\<rparr>)"
  by (simp add: handleIndexCodebase_def Let_def forceReindexBlock_def getIndexingCodebases_def
        getIndexedCodebases_def removeIndexedCodebase_def hasIndex_def clearIndex_def)





































lemma toUpperCase_langchain: "toUpperCase ''langchain'' = ''LANGCHAIN''"
  by code_simp

text \<open>
  Claim C10. A start-indexing request with splitter \<open>langchain\<close> passes validation and is
  acknowledged as using the LANGCHAIN splitter, and its job is started with that splitter type.
  The job does what the job of an \<open>ast\<close> request does, except for one warning: it runs
  \<open>indexCodebase\<close> on the shared \<open>Context\<close>, whose splitter no handler changes, so with the
  AST splitter of that \<open>Context\<close> and never with another one.
\<close>

theorem langchain_request_runs_ast:
  assumes "absolutePath = ensureAbsolutePath env (path args)"
      and "forceReindex = (force args = Some True)"
      and "splitter args = Some ''langchain''"
      and "existsSync env absolutePath"
      and "statIsDirectory env absolutePath = Inr True"
      and "absolutePath \<notin> set (getIndexingCodebases s)"
      and "forceReindex \<or> absolutePath \<notin> set (getIndexedCodebases s)"
      and "forceReindexBlock env forceReindex absolutePath s = Inr s1"
      and "checkCollectionLimit env = Inr True"
      and "contextSplitter st = AstSplitter"
  shows "(\<exists>given exts pats. fst (handleIndexCodebase env args s) =
            Response (StartedBackgroundIndexing absolutePath ''LANGCHAIN'' given exts pats) False) \<and>
         backgroundJobs (snd (handleIndexCodebase env args s)) =
            backgroundJobs s @ [(absolutePath, forceReindex, ''langchain'')] \<and>
         contextSplitter (snd (handleIndexCodebase env args s)) = contextSplitter s \<and>
         startBackgroundIndexing run absolutePath forceReindex ''langchain'' st =
           (fst (startBackgroundIndexing run absolutePath forceReindex ''ast'' st),
            [NonAstSplitterRequested ''langchain''],
            snd (snd (startBackgroundIndexing run absolutePath forceReindex ''ast'' st))) \<and>
         startBackgroundIndexing run absolutePath forceReindex ''langchain'' st =
           startBackgroundIndexing (run\<lparr>indexCodebase := \<lambda>k. indexCodebase run AstSplitter\<rparr>)
             absolutePath forceReindex ''langchain'' st"
proof -
  have f: "(case force args of Some b \<Rightarrow> b | None \<Rightarrow> False) = forceReindex"
    using assms(2) by (auto split: option.splits)
  have keep: "backgroundJobs s1 = backgroundJobs s" "contextSplitter s1 = contextSplitter s"
    using forceReindexBlock_keeps[OF assms(8)] by simp_all
  have a: "\<exists>given exts pats. fst (handleIndexCodebase env args s) =
            Response (StartedBackgroundIndexing absolutePath ''LANGCHAIN'' given exts pats) False"
    using assms(3-9) unfolding handleIndexCodebase_def Let_def f assms(1)[symmetric]
    by (simp add: toUpperCase_langchain)
  have b: "backgroundJobs (snd (handleIndexCodebase env args s)) =
            backgroundJobs s @ [(absolutePath, forceReindex, ''langchain'')]"
    using assms(3-9) keep unfolding handleIndexCodebase_def Let_def f assms(1)[symmetric]
    by (simp add: addCustomExtensions_def addCustomIgnorePatterns_def setCodebaseIndexing_def
          saveCodebaseSnapshot_def trackCodebasePath_def)
  have c: "startBackgroundIndexing run absolutePath forceReindex ''langchain'' st =
           (fst (startBackgroundIndexing run absolutePath forceReindex ''ast'' st),
            [NonAstSplitterRequested ''langchain''],
            snd (snd (startBackgroundIndexing run absolutePath forceReindex ''ast'' st)))"
    unfolding startBackgroundIndexing_def Let_def
    by (simp split: option.splits sum.splits)
  have d: "startBackgroundIndexing run absolutePath forceReindex ''langchain'' st =
           startBackgroundIndexing (run\<lparr>indexCodebase := \<lambda>k. indexCodebase run AstSplitter\<rparr>)
             absolutePath forceReindex ''langchain'' st"
    unfolding startBackgroundIndexing_def Let_def assms(10)
    by (simp split: option.splits sum.splits)
  have e: "contextSplitter (snd (handleIndexCodebase env args s)) = contextSplitter s"
    using assms(3-9) keep unfolding handleIndexCodebase_def Let_def f assms(1)[symmetric]
    by (simp add: addCustomExtensions_def addCustomIgnorePatterns_def setCodebaseIndexing_def
          saveCodebaseSnapshot_def trackCodebasePath_def)
  from a b c d e show ?thesis by blast
qed


theorem langchain_request_runs_ast_witness:
  "fst (handleIndexCodebase
     \<lparr>ensureAbsolutePath = (\<lambda>p. p), existsSync = (\<lambda>p. True), statIsDirectory = (\<lambda>p. Inr True),
      hasIndexFailure = (\<lambda>p. None), clearIndexFailure = (\<lambda>p. None), checkCollectionLimit = Inr True\<rparr>
     \<lparr>path = ''/repo'', force = None, splitter = Some ''langchain'', customExtensions = None,
      ignorePatterns = None\<rparr>
     \<lparr>snapshot = [], savedSnapshot = [], collections = [], contextExtensions = [],
      contextIgnorePatterns = [], contextSplitter = AstSplitter, trackedPaths = [],
      backgroundJobs = [], indexingStats = None\<rparr>)
   = Response (StartedBackgroundIndexing ''/repo'' ''LANGCHAIN'' None [] []) False \<and>
   startBackgroundIndexing
     \<lparr>loadIgnorePatterns = None, synchronizerInitialize = None, prepareCollection = None,
      indexCodebase = (\<lambda>k. if k = AstSplitter
         then \<lparr>progressCalls = [], indexResult = Inr \<lparr>indexedFiles = 2, totalChunks = 5, status = ''completed''\<rparr>\<rparr>
         else \<lparr>progressCalls = [], indexResult = Inr \<lparr>indexedFiles = 2, totalChunks = 9, status = ''completed''\<rparr>\<rparr>)\<rparr>
     ''/repo'' False ''langchain''
     \<lparr>snapshot = [(''/repo'', InfoIndexing 0)], savedSnapshot = [(''/repo'', InfoIndexing 0)],
      collections = [], contextExtensions = [], contextIgnorePatterns = [],
      contextSplitter = AstSplitter, trackedPaths = [''/repo''],
      backgroundJobs = [(''/repo'', False, ''langchain'')], indexingStats = None\<rparr>
   = (None, [NonAstSplitterRequested ''langchain''],
      \<lparr>snapshot = [(''/repo'', InfoIndexed 2 5 ''completed'')],
       savedSnapshot = [(''/repo'', InfoIndexed 2 5 ''completed'')],
       collections = [''/repo''], contextExtensions = [], contextIgnorePatterns = [],
       contextSplitter = AstSplitter, trackedPaths = [''/repo''],
       backgroundJobs = [(''/repo'', False, ''langchain'')], indexingStats = Some (2, 5)\<rparr>)"
proof -
  let ?env = "\<lparr>ensureAbsolutePath = (\<lambda>p::string. p), existsSync = (\<lambda>p::string. True),
      statIsDirectory = (\<lambda>p::string. Inr True :: exn + bool),
      hasIndexFailure = (\<lambda>p::string. None :: exn option),
      clearIndexFailure = (\<lambda>p::string. None :: exn option),
      checkCollectionLimit = (Inr True :: exn + bool)\<rparr>"
  let ?args = "\<lparr>path = ''/repo'', force = None, splitter = Some ''langchain'', customExtensions = None,
      ignorePatterns = None\<rparr>"
  let ?s = "\<lparr>snapshot = [], savedSnapshot = [], collections = [], contextExtensions = [],
      contextIgnorePatterns = [], contextSplitter = AstSplitter, trackedPaths = [],
      backgroundJobs = [], indexingStats = None\<rparr>"
  let ?run = "\<lparr>loadIgnorePatterns = None, synchronizerInitialize = None, prepareCollection = None,
      indexCodebase = (\<lambda>k. if k = AstSplitter
         then \<lparr>progressCalls = [], indexResult = Inr \<lparr>indexedFiles = 2, totalChunks = 5, status = ''completed''\<rparr>\<rparr>
         else \<lparr>progressCalls = [], indexResult = Inr \<lparr>indexedFiles = 2, totalChunks = 9, status = ''completed''\<rparr>\<rparr>)\<rparr>"
  let ?st = "\<lparr>snapshot = [(''/repo'', InfoIndexing 0)], savedSnapshot = [(''/repo'', InfoIndexing 0)],
      collections = [], contextExtensions = [], contextIgnorePatterns = [],
      contextSplitter = AstSplitter, trackedPaths = [''/repo''],
      backgroundJobs = [(''/repo'', False, ''langchain'')], indexingStats = None\<rparr>"
  have h1: "''/repo'' = ensureAbsolutePath ?env (path ?args)" by simp
  have h2: "False = (force ?args = Some True)" by simp
  have h3: "splitter ?args = Some ''langchain''" by simp
  have h4: "existsSync ?env ''/repo''" by simp
  have h5: "statIsDirectory ?env ''/repo'' = Inr True" by simp
  have h6: "''/repo'' \<notin> set (getIndexingCodebases ?s)" by (simp add: getIndexingCodebases_def)
  have h7: "False \<or> ''/repo'' \<notin> set (getIndexedCodebases ?s)" by (simp add: getIndexedCodebases_def)
  have h8: "forceReindexBlock ?env False ''/repo'' ?s = Inr ?s" by (simp add: forceReindexBlock_def)
  have h9: "checkCollectionLimit ?env = Inr True" by simp
  have h10: "contextSplitter ?st = AstSplitter" by simp
  have ast: "startBackgroundIndexing ?run ''/repo'' False ''ast'' ?st
     = (None, [],
      \<lparr>snapshot = [(''/repo'', InfoIndexed 2 5 ''completed'')],
       savedSnapshot = [(''/repo'', InfoIndexed 2 5 ''completed'')],
       collections = [''/repo''], contextExtensions = [], contextIgnorePatterns = [],
       contextSplitter = AstSplitter, trackedPaths = [''/repo''],
       backgroundJobs = [(''/repo'', False, ''langchain'')], indexingStats = Some (2, 5)\<rparr>)"
    by (simp add: startBackgroundIndexing_def Let_def setCodebaseIndexed_def saveCodebaseSnapshot_def)
  from langchain_request_runs_ast[OF h1 h2 h3 h4 h5 h6 h7 h8 h9 h10, of ?run]
  have a: "\<exists>given exts pats. fst (handleIndexCodebase ?env ?args ?s) =
            Response (StartedBackgroundIndexing ''/repo'' ''LANGCHAIN'' given exts pats) False"
    and b: "startBackgroundIndexing ?run ''/repo'' False ''langchain'' ?st =
           (fst (startBackgroundIndexing ?run ''/repo'' False ''ast'' ?st),
            [NonAstSplitterRequested ''langchain''],
            snd (snd (startBackgroundIndexing ?run ''/repo'' False ''ast'' ?st)))"
    by blast+
  have c: "\<exists>u. fst (handleIndexCodebase ?env ?args ?s) =
            Response (StartedBackgroundIndexing ''/repo'' u None [] []) False"
    by (simp add: handleIndexCodebase_def Let_def forceReindexBlock_def getIndexingCodebases_def
          getIndexedCodebases_def)
  from a c have d: "fst (handleIndexCodebase ?env ?args ?s) =
            Response (StartedBackgroundIndexing ''/repo'' ''LANGCHAIN'' None [] []) False"
    by auto
  from b have e: "startBackgroundIndexing ?run ''/repo'' False ''langchain'' ?st
     = (None, [NonAstSplitterRequested ''langchain''],
      \<lparr>snapshot = [(''/repo'', InfoIndexed 2 5 ''completed'')],
       savedSnapshot = [(''/repo'', InfoIndexed 2 5 ''completed'')],
       collections = [''/repo''], contextExtensions = [], contextIgnorePatterns = [],
       contextSplitter = AstSplitter, trackedPaths = [''/repo''],
       backgroundJobs = [(''/repo'', False, ''langchain'')], indexingStats = Some (2, 5)\<rparr>)"
    unfolding ast by simp
  from d e show ?thesis by blast
qed


end
